theory Spec2Isabelle
  imports Main
begin

section \<open>Python values, classes and type annotations\<close>

text \<open>
  The table components of \<^verbatim>\<open>reflex/components/datadisplay/table.py\<close> take dynamically
  typed arguments. The values below are the ones the code distinguishes: \<^verbatim>\<open>None\<close>,
  numbers, strings, lists and tuples (and instances of user subclasses of them, which
  \<^verbatim>\<open>isinstance\<close> accepts and the comparison \<^verbatim>\<open>type(x) in (list, tuple)\<close> rejects),
  reactive values (\<^verbatim>\<open>Var\<close>; \<open>var_type\<close> is the attribute \<^verbatim>\<open>type_\<close>) and components.
\<close>

datatype pyclass =
    Cls_NoneType
  | Cls_bool
  | Cls_int
  | Cls_str
  | Cls_list
  | Cls_tuple
  | Cls_Var
  | Cls_Foreach
  | Cls_Component string
  | Cls_Sub string pyclass

text \<open>
  A type annotation is a class, or a subscripted generic alias such as
  \<^verbatim>\<open>List[List[str]]\<close>: its origin class and its \<^verbatim>\<open>__args__\<close>.
\<close>

datatype pytype =
    TClass pyclass
  | TAlias pyclass "pytype list"

text \<open>
  The two functions handed to \<^verbatim>\<open>Foreach.create\<close> in the source, as data:
  \<^verbatim>\<open>lambda row: Tr.create(cell_type="data", cells=row)\<close> and \<^verbatim>\<open>cell_cls.create\<close>.
\<close>

datatype render_fn =
    Tr_data_row
  | Cell_create string

datatype component =
    Component (tag: string) (children: "pyval list") (props: "(string \<times> pyval) list")
  | Foreach (iterable: pyval) (render: render_fn)
and pyval =
    PNone
  | PBool bool
  | PInt int
  | PStr string
  | PList "pyval list"
  | PTuple "pyval list"
  | PListSub string "pyval list"
  | PTupleSub string "pyval list"
  | PVar (var_type: pytype) (var_name: string)
  | PComp component

text \<open>
  Exceptions. The message of a \<^verbatim>\<open>TypeError\<close> is a literal, the f-string of
  \<^verbatim>\<open>validate_rows\<close> (text, the interpolated type, text), or the interpreter's
  \<^verbatim>\<open>'<class>' object is not iterable\<close>. \<open>Unmodelled\<close> stands for iterating an object
  whose iteration protocol belongs to the external base classes.
\<close>

datatype message =
    Msg string
  | Msg_got string pytype string
  | Not_iterable pyclass

datatype pyerror =
    TypeError message
  | IndexError
  | Unmodelled

subsection \<open>Built-ins\<close>

fun type_of :: "pyval \<Rightarrow> pyclass" where
  "type_of PNone = Cls_NoneType"
| "type_of (PBool b) = Cls_bool"
| "type_of (PInt i) = Cls_int"
| "type_of (PStr s) = Cls_str"
| "type_of (PList xs) = Cls_list"
| "type_of (PTuple xs) = Cls_tuple"
| "type_of (PListSub c xs) = Cls_Sub c Cls_list"
| "type_of (PTupleSub c xs) = Cls_Sub c Cls_tuple"
| "type_of (PVar t n) = Cls_Var"
| "type_of (PComp (Component t cs ps)) = Cls_Component t"
| "type_of (PComp (Foreach it f)) = Cls_Foreach"

text \<open>\<^verbatim>\<open>issubclass(c, d)\<close> for a single class \<open>d\<close>, and for a tuple of classes.\<close>

fun issubclass1 :: "pyclass \<Rightarrow> pyclass \<Rightarrow> bool" where
  "issubclass1 (Cls_Sub n b) d = (Cls_Sub n b = d \<or> issubclass1 b d)"
| "issubclass1 c d = (c = d)"

definition issubclass :: "pyclass \<Rightarrow> pyclass list \<Rightarrow> bool" where
  "issubclass c ds = list_ex (issubclass1 c) ds"

definition isinstance :: "pyval \<Rightarrow> pyclass list \<Rightarrow> bool" where
  "isinstance v ds = issubclass (type_of v) ds"

text \<open>Truth value of an object, as \<^verbatim>\<open>not x\<close> and \<^verbatim>\<open>x or y\<close> test it.\<close>

fun truthy :: "pyval \<Rightarrow> bool" where
  "truthy PNone = False"
| "truthy (PBool b) = b"
| "truthy (PInt i) = (i \<noteq> 0)"
| "truthy (PStr s) = (s \<noteq> [])"
| "truthy (PList xs) = (xs \<noteq> [])"
| "truthy (PTuple xs) = (xs \<noteq> [])"
| "truthy (PListSub c xs) = (xs \<noteq> [])"
| "truthy (PTupleSub c xs) = (xs \<noteq> [])"
| "truthy (PVar t n) = True"
| "truthy (PComp c) = True"

definition py_or :: "pyval \<Rightarrow> pyval \<Rightarrow> pyval" where
  "py_or x y = (if truthy x then x else y)"

text \<open>The elements of a list or tuple object (empty for anything else).\<close>

fun items :: "pyval \<Rightarrow> pyval list" where
  "items (PList xs) = xs"
| "items (PTuple xs) = xs"
| "items (PListSub c xs) = xs"
| "items (PTupleSub c xs) = xs"
| "items v = []"

text \<open>
  \<^verbatim>\<open>for x in v\<close>: a sequence yields its elements, a string its characters; \<^verbatim>\<open>None\<close>
  and numbers raise \<^verbatim>\<open>TypeError\<close>.
\<close>

fun iterate :: "pyval \<Rightarrow> pyerror + pyval list" where
  "iterate (PList xs) = Inr xs"
| "iterate (PTuple xs) = Inr xs"
| "iterate (PListSub c xs) = Inr xs"
| "iterate (PTupleSub c xs) = Inr xs"
| "iterate (PStr s) = Inr (map (\<lambda>c. PStr [c]) s)"
| "iterate PNone = Inl (TypeError (Not_iterable Cls_NoneType))"
| "iterate (PBool b) = Inl (TypeError (Not_iterable Cls_bool))"
| "iterate (PInt i) = Inl (TypeError (Not_iterable Cls_int))"
| "iterate (PVar t n) = Inl Unmodelled"
| "iterate (PComp c) = Inl Unmodelled"

text \<open>A list comprehension whose element expression may raise: the first error wins.\<close>

fun comprehension :: "('a \<Rightarrow> pyerror + 'b) \<Rightarrow> 'a list \<Rightarrow> pyerror + 'b list" where
  "comprehension f [] = Inr []"
| "comprehension f (x # xs) =
     (case f x of
        Inl e \<Rightarrow> Inl e
      | Inr y \<Rightarrow> (case comprehension f xs of Inl e \<Rightarrow> Inl e | Inr ys \<Rightarrow> Inr (y # ys)))"

subsection \<open>External collaborators\<close>

text \<open>
  Modelled from the spec: \<^verbatim>\<open>types.get_base_class\<close> of \<^verbatim>\<open>reflex.utils.types\<close> is not
  part of the file. The spec speaks of a value being ``a list or tuple, possibly wrapped in a
  reactive value''; the base class of a subscripted alias is its origin class, and a class is
  its own base class.
\<close>

fun get_base_class :: "pytype \<Rightarrow> pyclass" where
  "get_base_class (TClass c) = c"
| "get_base_class (TAlias c args) = c"

text \<open>
  Modelled from the spec: \<^verbatim>\<open>ChakraComponent.create\<close> (reached through
  \<^verbatim>\<open>super().create\<close>) is not part of the file. Per the spec a node holds ``a tag name and
  a list of child nodes'': the node of the calling class, with the children and the
  properties it was given.
\<close>

definition Component_create :: "string \<Rightarrow> pyval list \<Rightarrow> (string \<times> pyval) list \<Rightarrow> component" where
  "Component_create cls chs ps = Component cls chs ps"

text \<open>
  Modelled from the spec: \<^verbatim>\<open>Foreach.create\<close> is not part of the file. It is the
  ``dynamic list rendering'' node: it keeps the reactive iterable and the function that
  renders one element.
\<close>

definition Foreach_create :: "pyval \<Rightarrow> render_fn \<Rightarrow> component" where
  "Foreach_create it f = Foreach it f"

section \<open>The table components\<close>

text \<open>The class attribute \<^verbatim>\<open>invalid_children\<close> of each component class, by tag.\<close>

definition invalid_children :: "string \<Rightarrow> string list" where
  "invalid_children t =
     (if t = ''Thead'' then [''Tbody'', ''Thead'', ''Tfoot'']
      else if t = ''Tbody'' then [''Tbody'', ''Thead'', ''Tfoot'', ''Td'', ''Th'']
      else if t = ''Tfoot'' then [''Tbody'', ''Thead'', ''Td'', ''Th'', ''Tfoot'']
      else if t = ''Tr'' then [''Tbody'', ''Thead'', ''Tfoot'', ''Tr'']
      else if t = ''Th'' then [''Tbody'', ''Thead'', ''Tr'', ''Td'', ''Th'']
      else if t = ''Td'' then [''Tbody'', ''Thead'']
      else [])"

definition is_Var :: "pyval \<Rightarrow> bool" where
  "is_Var v = isinstance v [Cls_Var]"

subsection \<open>Tr.create\<close>

definition cell_types :: "string \<rightharpoonup> string" where
  "cell_types = [''header'' \<mapsto> ''Th'', ''data'' \<mapsto> ''Td'']"

definition Tr_create ::
  "pyval list \<Rightarrow> string \<Rightarrow> pyval \<Rightarrow> (string \<times> pyval) list \<Rightarrow> pyerror + component" where
  "Tr_create chs cell_type cells ps =
     (case cell_types cell_type of
        Some cell_cls \<Rightarrow>
          (if length chs = 0 then
             (if is_Var cells then
                Inr (Component_create ''Tr''
                       [PComp (Foreach_create cells (Cell_create cell_cls))] ps)
              else
                (case iterate (py_or cells (PList [])) of
                   Inl e \<Rightarrow> Inl e
                 | Inr cs \<Rightarrow>
                     Inr (Component_create ''Tr''
                            (map (\<lambda>cell. PComp (Component_create cell_cls [cell] [])) cs) ps)))
           else Inr (Component_create ''Tr'' chs ps))
      | None \<Rightarrow> Inr (Component_create ''Tr'' chs ps))"

text \<open>Applying a render function of a \<open>Foreach\<close> node to one element.\<close>

fun apply_render_fn :: "render_fn \<Rightarrow> pyval \<Rightarrow> pyerror + component" where
  "apply_render_fn Tr_data_row row = Tr_create [] ''data'' row []"
| "apply_render_fn (Cell_create cell_cls) cell = Inr (Component_create cell_cls [cell] [])"

subsection \<open>Thead.create and Tfoot.create\<close>

definition validate_headers :: "pyval \<Rightarrow> pyerror + unit" where
  "validate_headers headers =
     (if (is_Var headers \<and> get_base_class (var_type headers) \<notin> set [Cls_list, Cls_tuple])
         \<or> (\<not> is_Var headers
             \<and> get_base_class (TClass (type_of headers)) \<notin> set [Cls_list, Cls_tuple])
      then Inl (TypeError (Msg ''table headers should be a list or tuple''))
      else Inr ())"

definition Thead_create ::
  "pyval list \<Rightarrow> pyval \<Rightarrow> (string \<times> pyval) list \<Rightarrow> pyerror + component" where
  "Thead_create chs headers ps =
     (if length chs = 0 then
        (case validate_headers headers of
           Inl e \<Rightarrow> Inl e
         | Inr u \<Rightarrow>
             (case Tr_create [] ''header'' headers [] of
                Inl e \<Rightarrow> Inl e
              | Inr tr \<Rightarrow> Inr (Component_create ''Thead'' [PComp tr] ps)))
      else Inr (Component_create ''Thead'' chs ps))"

definition validate_footers :: "pyval \<Rightarrow> pyerror + unit" where
  "validate_footers footers =
     (if (is_Var footers \<and> get_base_class (var_type footers) \<notin> set [Cls_list, Cls_tuple])
         \<or> (\<not> is_Var footers
             \<and> get_base_class (TClass (type_of footers)) \<notin> set [Cls_list, Cls_tuple])
      then Inl (TypeError (Msg ''table headers should be a list or tuple''))
      else Inr ())"

definition Tfoot_create ::
  "pyval list \<Rightarrow> pyval \<Rightarrow> (string \<times> pyval) list \<Rightarrow> pyerror + component" where
  "Tfoot_create chs footers ps =
     (if length chs = 0 then
        (case validate_footers footers of
           Inl e \<Rightarrow> Inl e
         | Inr u \<Rightarrow>
             (case Tr_create [] ''header'' footers [] of
                Inl e \<Rightarrow> Inl e
              | Inr tr \<Rightarrow> Inr (Component_create ''Tfoot'' [PComp tr] ps)))
      else Inr (Component_create ''Tfoot'' chs ps))"

subsection \<open>Tbody.create\<close>

text \<open>
  \<^verbatim>\<open>outer_type.__args__[0] if hasattr(outer_type, "__args__") else None\<close>: indexing an
  empty \<^verbatim>\<open>__args__\<close> raises \<^verbatim>\<open>IndexError\<close>.
\<close>

fun inner_type_of :: "pytype \<Rightarrow> pyerror + pytype option" where
  "inner_type_of (TClass c) = Inr None"
| "inner_type_of (TAlias c []) = Inl IndexError"
| "inner_type_of (TAlias c (a # as)) = Inr (Some a)"

definition rows_msg_var :: "pytype \<Rightarrow> message" where
  "rows_msg_var outer_type =
     Msg_got ''table rows should be a list or tuple containing inner lists or tuples. Got ''
       outer_type '' instead''"

definition rows_msg :: message where
  "rows_msg = Msg ''table rows should be a list or tuple containing inner lists or tuples.''"

definition validate_rows :: "pyval \<Rightarrow> pyerror + unit" where
  "validate_rows rows =
     (if is_Var rows then
        (let outer_type = var_type rows in
         case inner_type_of outer_type of
           Inl e \<Rightarrow> Inl e
         | Inr inner_type \<Rightarrow>
             (if \<not> (issubclass (get_base_class outer_type) [Cls_list, Cls_tuple]
                    \<and> (case inner_type of
                          None \<Rightarrow> True
                        | Some it \<Rightarrow> issubclass (get_base_class it) [Cls_list, Cls_tuple]))
              then Inl (TypeError (rows_msg_var outer_type))
              else Inr ()))
      else if \<not> (isinstance rows [Cls_list, Cls_tuple]
                  \<and> (\<not> truthy rows \<or> isinstance (hd (items rows)) [Cls_list, Cls_tuple]))
      then Inl (TypeError rows_msg)
      else Inr ())"

definition Tbody_create ::
  "pyval list \<Rightarrow> pyval \<Rightarrow> (string \<times> pyval) list \<Rightarrow> pyerror + component" where
  "Tbody_create chs rows ps =
     (if length chs = 0 then
        (case validate_rows rows of
           Inl e \<Rightarrow> Inl e
         | Inr u \<Rightarrow>
             (if is_Var rows then
                Inr (Component_create ''Tbody'' [PComp (Foreach_create rows Tr_data_row)] ps)
              else
                (case iterate (py_or rows (PList [])) of
                   Inl e \<Rightarrow> Inl e
                 | Inr rs \<Rightarrow>
                     (case comprehension (\<lambda>row. Tr_create [] ''data'' row []) rs of
                        Inl e \<Rightarrow> Inl e
                      | Inr trs \<Rightarrow> Inr (Component_create ''Tbody'' (map PComp trs) ps)))))
      else Inr (Component_create ''Tbody'' chs ps))"

subsection \<open>Table.create\<close>

text \<open>
  The four \<^verbatim>\<open>if ... is not None: children.append(...)\<close> statements, in their order; an
  exception of a section's \<^verbatim>\<open>create\<close> leaves the function at once.
\<close>

definition append_section ::
  "pyval list \<Rightarrow> pyval \<Rightarrow> (pyval \<Rightarrow> pyerror + component) \<Rightarrow> pyerror + pyval list" where
  "append_section chs arg mk =
     (if arg \<noteq> PNone then
        (case mk arg of Inl e \<Rightarrow> Inl e | Inr c \<Rightarrow> Inr (chs @ [PComp c]))
      else Inr chs)"

definition Table_create ::
  "pyval list \<Rightarrow> pyval \<Rightarrow> pyval \<Rightarrow> pyval \<Rightarrow> pyval \<Rightarrow> (string \<times> pyval) list
     \<Rightarrow> pyerror + component" where
  "Table_create chs caption headers rows footers ps =
     (if length chs = 0 then
        (case append_section [] caption (\<lambda>c. Inr (Component_create ''TableCaption'' [c] [])) of
           Inl e \<Rightarrow> Inl e
         | Inr chs1 \<Rightarrow>
        (case append_section chs1 headers (\<lambda>h. Thead_create [] h []) of
           Inl e \<Rightarrow> Inl e
         | Inr chs2 \<Rightarrow>
        (case append_section chs2 rows (\<lambda>r. Tbody_create [] r []) of
           Inl e \<Rightarrow> Inl e
         | Inr chs3 \<Rightarrow>
        (case append_section chs3 footers (\<lambda>f. Tfoot_create [] f []) of
           Inl e \<Rightarrow> Inl e
         | Inr chs4 \<Rightarrow> Inr (Component_create ''Table'' chs4 ps)))))
      else Inr (Component_create ''Table'' chs ps))"

section \<open>Shapes of arguments, as the specification names them\<close>

text \<open>A list or tuple class, or a subclass of one: what \<^verbatim>\<open>issubclass\<close> accepts.\<close>

fun seq_class :: "pyclass \<Rightarrow> bool" where
  "seq_class Cls_list = True"
| "seq_class Cls_tuple = True"
| "seq_class (Cls_Sub n b) = seq_class b"
| "seq_class c = False"

fun seq_type :: "pytype \<Rightarrow> bool" where
  "seq_type (TClass c) = seq_class c"
| "seq_type (TAlias c args) = seq_class c"

text \<open>An instance of a list or tuple class or of a subclass of one.\<close>

fun seq_like :: "pyval \<Rightarrow> bool" where
  "seq_like (PList xs) = True"
| "seq_like (PTuple xs) = True"
| "seq_like (PListSub c xs) = True"
| "seq_like (PTupleSub c xs) = True"
| "seq_like v = False"

text \<open>
  Headers and footers: ``a plain list or tuple, or a reactive value whose declared type is
  a list or tuple type'' (the class itself or a subscripted alias of it).
\<close>

fun list_or_tuple_type :: "pytype \<Rightarrow> bool" where
  "list_or_tuple_type (TClass c) = (c = Cls_list \<or> c = Cls_tuple)"
| "list_or_tuple_type (TAlias c args) = (c = Cls_list \<or> c = Cls_tuple)"

fun list_tuple_like :: "pyval \<Rightarrow> bool" where
  "list_tuple_like (PList xs) = True"
| "list_tuple_like (PTuple xs) = True"
| "list_tuple_like (PVar t n) = list_or_tuple_type t"
| "list_tuple_like v = False"

text \<open>
  The row of header cells expected for a headers or footers value: one \<^verbatim>\<open>Th\<close> per
  element, or for a reactive value one \<^verbatim>\<open>Foreach\<close> that renders \<^verbatim>\<open>Th\<close> cells.
\<close>

fun header_row :: "pyval \<Rightarrow> component" where
  "header_row (PVar t n) = Component ''Tr'' [PComp (Foreach (PVar t n) (Cell_create ''Th''))] []"
| "header_row v = Component ''Tr'' (map (\<lambda>c. PComp (Component ''Th'' [c] [])) (items v)) []"


text \<open>
  Rows, as the amended claim reads them: of a list or tuple only the first element is
  looked at, of a subscripted type only the first argument.
\<close>

fun rows_rejected :: "pyval \<Rightarrow> bool" where
  "rows_rejected (PVar (TClass c) n) = (\<not> seq_class c)"
| "rows_rejected (PVar (TAlias c []) n) = False"
| "rows_rejected (PVar (TAlias c (a # as)) n) = (\<not> (seq_class c \<and> seq_type a))"
| "rows_rejected v =
     (\<not> (seq_like v \<and> (case items v of [] \<Rightarrow> True | r # rs \<Rightarrow> seq_like r)))"

text \<open>The two shape-validation errors of \<^verbatim>\<open>validate_rows\<close>.\<close>

fun shape_error :: "pyerror \<Rightarrow> bool" where
  "shape_error (TypeError (Msg s)) = (Msg s = rows_msg)"
| "shape_error (TypeError (Msg_got a t b)) = (Msg_got a t b = rows_msg_var t)"
| "shape_error e = False"

text \<open>The row of data cells built for one list or tuple of cells.\<close>

definition data_row :: "pyval \<Rightarrow> component" where
  "data_row r = Component ''Tr'' (map (\<lambda>c. PComp (Component ''Td'' [c] [])) (items r)) []"

text \<open>The child a table section contributes: none when its argument is \<^verbatim>\<open>None\<close>.\<close>

definition optional :: "pyval \<Rightarrow> component \<Rightarrow> pyval list" where
  "optional arg node = (if arg = PNone then [] else [PComp node])"

text \<open>
  Structural nesting validity: no component is a direct child of a node whose
  \<^verbatim>\<open>invalid_children\<close> name the component's class. A \<^verbatim>\<open>Foreach\<close> node is a leaf.
\<close>

fun node_tag :: "component \<Rightarrow> string" where
  "node_tag (Component t chs ps) = t"
| "node_tag (Foreach it f) = ''Foreach''"

fun allowed_child :: "string \<Rightarrow> pyval \<Rightarrow> bool" where
  "allowed_child parent (PComp c) = (node_tag c \<notin> set (invalid_children parent))"
| "allowed_child parent v = True"

fun valid_tree :: "component \<Rightarrow> bool" and valid_value :: "pyval \<Rightarrow> bool" where
  "valid_tree (Component t chs ps) = (\<forall>ch \<in> set chs. allowed_child t ch \<and> valid_value ch)"
| "valid_tree (Foreach it f) = True"
| "valid_value (PComp c) = valid_tree c"
| "valid_value v = True"

text \<open>
  The cells of a list or tuple that may go into a cell of class \<open>cls\<close>: a cell that is
  itself a component is validly nested and not one the cell class disallows.
\<close>

definition cells_ok :: "string \<Rightarrow> pyval \<Rightarrow> bool" where
  "cells_ok cls v = list_all (\<lambda>c. allowed_child cls c \<and> valid_value c) (items v)"


text \<open>
  Valid rows, in the words of the specification ``a list/tuple of list/tuple-like rows'',
  possibly wrapped in a reactive value: every element of the list or tuple is a list or
  tuple; for a reactive value the declared type is a list or tuple type and, when it is
  subscripted, so is its element type.
\<close>

fun valid_rows :: "pyval \<Rightarrow> bool" where
  "valid_rows (PVar (TClass c) n) = seq_class c"
| "valid_rows (PVar (TAlias c []) n) = False"
| "valid_rows (PVar (TAlias c (a # as)) n) = (seq_class c \<and> seq_type a)"
| "valid_rows v = (seq_like v \<and> list_all seq_like (items v))"

text \<open>
  The nodes whose children are the values handed in by the caller: the cells and the
  caption. Every other node of a tree built by \<^verbatim>\<open>Table.create\<close> has children that the
  inference itself placed. \<open>placed_ok\<close> checks the nesting of those placements only.
\<close>

definition content_tags :: "string list" where
  "content_tags = [''Th'', ''Td'', ''TableCaption'']"

fun placed_ok :: "component \<Rightarrow> bool" and placed_ok_value :: "pyval \<Rightarrow> bool" where
  "placed_ok (Component t chs ps) =
     (t \<in> set content_tags \<or> (\<forall>ch \<in> set chs. allowed_child t ch \<and> placed_ok_value ch))"
| "placed_ok (Foreach it f) = True"
| "placed_ok_value (PComp c) = placed_ok c"
| "placed_ok_value v = True"




section \<open>Basic facts\<close>

lemmas create_defs = Component_create_def Foreach_create_def

lemmas isinstance_defs = is_Var_def isinstance_def issubclass_def

lemma is_Var_simps [simp]:
  "is_Var (PVar t n)" "\<not> is_Var PNone" "\<not> is_Var (PBool b)" "\<not> is_Var (PInt i)"
  "\<not> is_Var (PStr s)" "\<not> is_Var (PList xs)" "\<not> is_Var (PTuple xs)"
  "\<not> is_Var (PListSub c xs)" "\<not> is_Var (PTupleSub c xs)" "\<not> is_Var (PComp k)"
  by (cases k; simp add: isinstance_defs)+

lemma is_Var_iff: "is_Var v \<longleftrightarrow> (\<exists>t n. v = PVar t n)"
  by (cases v) simp_all

lemma issubclass_seq [simp]: "issubclass c [Cls_list, Cls_tuple] = seq_class c"
  by (induction c) (auto simp: issubclass_def)

lemma isinstance_seq [simp]: "isinstance v [Cls_list, Cls_tuple] = seq_like v"
proof (cases v)
  case (PComp k)
  then show ?thesis by (cases k) (simp_all add: isinstance_def)
qed (simp_all add: isinstance_def)

lemma iterate_seq: "seq_like v \<Longrightarrow> iterate (py_or v (PList [])) = Inr (items v)"
  by (cases v) (auto simp: py_or_def)

lemma cell_types_simps [simp]:
  "cell_types ''header'' = Some ''Th''" "cell_types ''data'' = Some ''Td''"
  by (simp_all add: cell_types_def)

lemma Tr_create_Var:
  "cell_types ct = Some cls \<Longrightarrow>
     Tr_create [] ct (PVar t n) ps
       = Inr (Component ''Tr'' [PComp (Foreach (PVar t n) (Cell_create cls))] ps)"
  by (simp add: Tr_create_def create_defs)

lemma Tr_create_seq:
  "cell_types ct = Some cls \<Longrightarrow> seq_like v \<Longrightarrow>
     Tr_create [] ct v ps
       = Inr (Component ''Tr'' (map (\<lambda>c. PComp (Component cls [c] [])) (items v)) ps)"
  by (cases v) (simp_all add: Tr_create_def create_defs iterate_seq)

lemma get_base_class_list_or_tuple:
  "get_base_class t \<in> set [Cls_list, Cls_tuple] \<longleftrightarrow> list_or_tuple_type t"
  by (cases t) auto

lemma validate_headers_iff:
  "validate_headers v = (if list_tuple_like v then Inr ()
     else Inl (TypeError (Msg ''table headers should be a list or tuple'')))"
proof (cases v)
  case (PVar t n)
  then show ?thesis using get_base_class_list_or_tuple [of t]
    by (simp add: validate_headers_def)
next
  case (PComp k)
  then show ?thesis by (cases k) (simp_all add: validate_headers_def)
qed (simp_all add: validate_headers_def)

lemma validate_footers_iff:
  "validate_footers v = (if list_tuple_like v then Inr ()
     else Inl (TypeError (Msg ''table headers should be a list or tuple'')))"
proof (cases v)
  case (PVar t n)
  then show ?thesis using get_base_class_list_or_tuple [of t]
    by (simp add: validate_footers_def)
next
  case (PComp k)
  then show ?thesis by (cases k) (simp_all add: validate_footers_def)
qed (simp_all add: validate_footers_def)

lemma Tr_create_header_row:
  "list_tuple_like v \<Longrightarrow> Tr_create [] ''header'' v [] = Inr (header_row v)"
  by (cases v) (simp_all add: Tr_create_Var Tr_create_seq)

lemma get_base_class_seq [simp]: "seq_class (get_base_class t) = seq_type t"
  by (cases t) simp_all

lemma validate_rows_Var:
  "validate_rows (PVar t n) =
     (if rows_rejected (PVar t n) then Inl (TypeError (rows_msg_var t))
      else if t \<in> range (\<lambda>c. TAlias c []) then Inl IndexError else Inr ())"
proof (cases t)
  case (TClass c)
  then show ?thesis by (auto simp: validate_rows_def)
next
  case (TAlias c args)
  then show ?thesis by (cases args) (auto simp: validate_rows_def)
qed

lemma validate_rows_static:
  "\<not> is_Var v \<Longrightarrow>
     validate_rows v = (if rows_rejected v then Inl (TypeError rows_msg) else Inr ())"
  by (cases v) (auto simp: validate_rows_def split: list.splits)




lemma shape_error_simps [simp]:
  "shape_error (TypeError rows_msg)" "shape_error (TypeError (rows_msg_var t))"
  "\<not> shape_error IndexError"
  by (simp_all add: rows_msg_def rows_msg_var_def)

lemma comprehension_data_rows:
  "list_all seq_like rs \<Longrightarrow>
     comprehension (\<lambda>row. Tr_create [] ''data'' row []) rs = Inr (map data_row rs)"
  by (induction rs) (simp_all add: Tr_create_seq data_row_def)

lemma rows_all_seq_not_rejected:
  "rows = PList rs \<or> rows = PTuple rs \<Longrightarrow> list_all seq_like rs \<Longrightarrow> \<not> rows_rejected rows"
  by (cases rs) auto

lemma Tbody_create_Var:
  "validate_rows (PVar t n) = Inr () \<Longrightarrow>
    Tbody_create [] (PVar t n) ps
      = Inr (Component ''Tbody'' [PComp (Foreach (PVar t n) Tr_data_row)] ps)"
  by (simp add: Tbody_create_def create_defs)

lemma Tbody_create_static:
  assumes "rows = PList rs \<or> rows = PTuple rs" and "list_all seq_like rs"
  shows "Tbody_create [] rows ps = Inr (Component ''Tbody'' (map (PComp \<circ> data_row) rs) ps)"
proof -
  have "validate_rows rows = Inr ()"
    using assms rows_all_seq_not_rejected [OF assms] by (auto simp: validate_rows_static)
  moreover have "iterate (py_or rows (PList [])) = Inr rs"
    using assms(1) iterate_seq [of rows] by auto
  ultimately show ?thesis
    using assms by (auto simp: Tbody_create_def comprehension_data_rows create_defs)
qed

lemma optional_alt: "optional arg node = (if arg \<noteq> PNone then [PComp node] else [])"
  by (simp add: optional_def)

lemma append_section_Inr:
  "append_section chs arg mk = Inr chs' \<longleftrightarrow>
     (\<exists>c. (arg \<noteq> PNone \<longrightarrow> mk arg = Inr c) \<and> chs' = chs @ optional arg c)"
  by (auto simp: append_section_def optional_def split: sum.splits)

lemma Table_create_sections:
  "Table_create [] caption headers rows footers ps = Inr t \<longleftrightarrow>
     (\<exists>thead tbody tfoot.
        (headers \<noteq> PNone \<longrightarrow> Thead_create [] headers [] = Inr thead)
      \<and> (rows \<noteq> PNone \<longrightarrow> Tbody_create [] rows [] = Inr tbody)
      \<and> (footers \<noteq> PNone \<longrightarrow> Tfoot_create [] footers [] = Inr tfoot)
      \<and> t = Component ''Table''
              (optional caption (Component ''TableCaption'' [caption] [])
               @ optional headers thead @ optional rows tbody @ optional footers tfoot) ps)"
  (is "?l \<longleftrightarrow> ?r")
proof
  assume ?l
  then obtain c1 c2 c3 c4 where
    1: "append_section [] caption (\<lambda>c. Inr (Component_create ''TableCaption'' [c] [])) = Inr c1" and
    2: "append_section c1 headers (\<lambda>h. Thead_create [] h []) = Inr c2" and
    3: "append_section c2 rows (\<lambda>r. Tbody_create [] r []) = Inr c3" and
    4: "append_section c3 footers (\<lambda>f. Tfoot_create [] f []) = Inr c4" and
    t: "t = Component ''Table'' c4 ps"
    by (auto simp: Table_create_def create_defs split: sum.splits)
  from 1 have c1: "c1 = optional caption (Component ''TableCaption'' [caption] [])"
    by (auto simp: append_section_def optional_def create_defs)
  from 2 obtain thead where h: "headers \<noteq> PNone \<longrightarrow> Thead_create [] headers [] = Inr thead"
    and c2: "c2 = c1 @ optional headers thead" by (auto simp: append_section_Inr)
  from 3 obtain tbody where b: "rows \<noteq> PNone \<longrightarrow> Tbody_create [] rows [] = Inr tbody"
    and c3: "c3 = c2 @ optional rows tbody" by (auto simp: append_section_Inr)
  from 4 obtain tfoot where f: "footers \<noteq> PNone \<longrightarrow> Tfoot_create [] footers [] = Inr tfoot"
    and c4: "c4 = c3 @ optional footers tfoot" by (auto simp: append_section_Inr)
  show ?r using h b f t c1 c2 c3 c4 by auto
next
  assume ?r
  then obtain thead tbody tfoot where
    h: "headers \<noteq> PNone \<longrightarrow> Thead_create [] headers [] = Inr thead" and
    b: "rows \<noteq> PNone \<longrightarrow> Tbody_create [] rows [] = Inr tbody" and
    f: "footers \<noteq> PNone \<longrightarrow> Tfoot_create [] footers [] = Inr tfoot" and
    t: "t = Component ''Table''
              (optional caption (Component ''TableCaption'' [caption] [])
               @ optional headers thead @ optional rows tbody @ optional footers tfoot) ps"
    by blast
  show ?l using h b f unfolding t
    by (simp add: Table_create_def append_section_def optional_def create_defs)
qed




lemma not_rejected_seq_like: "\<not> is_Var v \<Longrightarrow> \<not> rows_rejected v \<Longrightarrow> seq_like v"
  by (cases v) auto



lemma comprehension_Inr:
  "comprehension f xs = Inr ys \<Longrightarrow> list_all2 (\<lambda>x y. f x = Inr y) xs ys"
  by (induction xs arbitrary: ys) (auto split: sum.splits)



lemma allowed_child_no_list [simp]:
  "allowed_child ''Table'' v" "allowed_child ''TableCaption'' v"
  by (cases v; simp add: invalid_children_def)+

lemma cells_ok_PNone [simp]: "cells_ok cls PNone"
  by (simp add: cells_ok_def)

lemma apply_render_fn_Tr_data_row:
  "apply_render_fn Tr_data_row = (\<lambda>row. Tr_create [] ''data'' row [])"
  by (rule ext) simp

lemma comprehension_all2:
  "list_all2 (\<lambda>x y. f x = Inr y) xs ys \<Longrightarrow> comprehension f xs = Inr ys"
  by (induction xs ys rule: list_all2_induct) simp_all

lemma comprehension_iff:
  "comprehension f xs = Inr ys \<longleftrightarrow> list_all2 (\<lambda>x y. f x = Inr y) xs ys"
  using comprehension_Inr comprehension_all2 by blast

lemma Tbody_create_accepted_static:
  assumes "validate_rows rows = Inr ()" and "\<not> is_Var rows"
  shows "Tbody_create [] rows ps =
     (case comprehension (apply_render_fn Tr_data_row) (items rows) of
        Inl e \<Rightarrow> Inl e
      | Inr trs \<Rightarrow> Inr (Component ''Tbody'' (map PComp trs) ps))"
proof -
  have "seq_like rows"
    using assms by (auto simp: validate_rows_static split: if_splits intro: not_rejected_seq_like)
  then have "iterate (py_or rows (PList [])) = Inr (items rows)" by (rule iterate_seq)
  then show ?thesis
    using assms
    by (simp add: Tbody_create_def apply_render_fn_Tr_data_row create_defs split: sum.splits)
qed

lemma valid_rows_accepted: "valid_rows rows \<Longrightarrow> validate_rows rows = Inr ()"
proof (cases "is_Var rows")
  case True
  assume v: "valid_rows rows"
  from True obtain t n where r: "rows = PVar t n" by (auto simp: is_Var_iff)
  show ?thesis
  proof (cases t)
    case (TClass c)
    with v r show ?thesis by (simp add: validate_rows_Var image_iff)
  next
    case (TAlias c args)
    with v r show ?thesis by (cases args) (auto simp: validate_rows_Var)
  qed
next
  case False
  assume v: "valid_rows rows"
  with False have "\<not> rows_rejected rows" by (cases rows) (auto split: list.splits)
  with False show ?thesis by (simp add: validate_rows_static)
qed

lemma valid_rows_static_items:
  "valid_rows rows \<Longrightarrow> \<not> is_Var rows \<Longrightarrow> list_all seq_like (items rows)"
  by (cases rows) auto









section \<open>Rows and their cells\<close>

text \<open>
  C3. With no explicit children, \<^verbatim>\<open>Tr.create\<close> picks the cell class from
  \<^verbatim>\<open>cell_type\<close>: for every list of cells, \<^verbatim>\<open>"header"\<close> gives a row whose children are
  \<^verbatim>\<open>Th\<close> cells and \<^verbatim>\<open>"data"\<close> a row whose children are \<^verbatim>\<open>Td\<close> cells, one cell per
  element of the list, each holding that element.
\<close>

theorem Tr_create_cell_type:
  "Tr_create [] ''header'' (PList cells) ps
     = Inr (Component ''Tr'' (map (\<lambda>c. PComp (Component ''Th'' [c] [])) cells) ps)
   \<and> Tr_create [] ''data'' (PList cells) ps
     = Inr (Component ''Tr'' (map (\<lambda>c. PComp (Component ''Td'' [c] [])) cells) ps)"
  by (cases cells) (simp_all add: Tr_create_def cell_types_def py_or_def create_defs)

theorem Tr_create_cell_type_witness:
  "Tr_create [] ''header'' (PList [PStr ''a'', PInt 1]) []
     = Inr (Component ''Tr''
              [PComp (Component ''Th'' [PStr ''a''] []), PComp (Component ''Th'' [PInt 1] [])] [])
   \<and> Tr_create [] ''data'' (PList [PStr ''a'', PInt 1]) []
     = Inr (Component ''Tr''
              [PComp (Component ''Td'' [PStr ''a''] []), PComp (Component ''Td'' [PInt 1] [])] [])"
  using Tr_create_cell_type [of "[PStr ''a'', PInt 1]" "[]"] by simp

text \<open>
  C10. For every \<^verbatim>\<open>cell_type\<close> other than \<^verbatim>\<open>"header"\<close> and \<^verbatim>\<open>"data"\<close> (the default
  empty string among them), \<^verbatim>\<open>Tr.create\<close> with no explicit children raises nothing and
  ignores \<^verbatim>\<open>cells\<close>, whatever it is: the row has no children.
\<close>

theorem Tr_create_unknown_cell_type:
  "cell_type \<noteq> ''header'' \<Longrightarrow> cell_type \<noteq> ''data'' \<Longrightarrow>
     Tr_create [] cell_type cells ps = Inr (Component ''Tr'' [] ps)"
  by (simp add: Tr_create_def cell_types_def create_defs)

theorem Tr_create_unknown_cell_type_witness:
  "'''' \<noteq> ''header'' \<and> '''' \<noteq> ''data''
   \<and> Tr_create [] '''' (PList [PInt 1]) [] = Inr (Component ''Tr'' [] [])
   \<and> Tr_create [] ''footer'' (PInt 5) [] = Inr (Component ''Tr'' [] [])"
  using Tr_create_unknown_cell_type [of "''''" "PList [PInt 1]" "[]"]
        Tr_create_unknown_cell_type [of "''footer''" "PInt 5" "[]"]
  by simp

section \<open>Explicit children\<close>

text \<open>
  C4. Given at least one explicit child, \<^verbatim>\<open>Table.create\<close>, \<^verbatim>\<open>Thead.create\<close>,
  \<^verbatim>\<open>Tbody.create\<close> and \<^verbatim>\<open>Tfoot.create\<close> infer and validate nothing: the component's
  children are the children passed, and the caption, headers, rows and footers arguments
  are ignored, so that no value of them raises.
\<close>

theorem explicit_children_bypass:
  "chs \<noteq> [] \<Longrightarrow>
     Table_create chs caption headers rows footers ps = Inr (Component ''Table'' chs ps)
   \<and> Thead_create chs headers ps = Inr (Component ''Thead'' chs ps)
   \<and> Tbody_create chs rows ps = Inr (Component ''Tbody'' chs ps)
   \<and> Tfoot_create chs footers ps = Inr (Component ''Tfoot'' chs ps)"
  by (simp add: Table_create_def Thead_create_def Tbody_create_def Tfoot_create_def create_defs)

theorem explicit_children_bypass_witness:
  "[PComp (Component ''Tr'' [] [])] \<noteq> []
   \<and> Table_create [PComp (Component ''Tr'' [] [])] (PStr ''c'') (PInt 3) (PInt 4) (PInt 5) []
       = Inr (Component ''Table'' [PComp (Component ''Tr'' [] [])] [])
   \<and> Thead_create [PComp (Component ''Tr'' [] [])] (PInt 3) []
       = Inr (Component ''Thead'' [PComp (Component ''Tr'' [] [])] [])
   \<and> Tbody_create [PComp (Component ''Tr'' [] [])] (PInt 4) []
       = Inr (Component ''Tbody'' [PComp (Component ''Tr'' [] [])] [])
   \<and> Tfoot_create [PComp (Component ''Tr'' [] [])] (PInt 5) []
       = Inr (Component ''Tfoot'' [PComp (Component ''Tr'' [] [])] [])"
  using explicit_children_bypass
          [of "[PComp (Component ''Tr'' [] [])]" "PStr ''c''" "PInt 3" "PInt 4" "PInt 5" "[]"]
  by simp

section \<open>Header and footer sections\<close>

text \<open>
  C1. For every well-formed headers value, a list or a tuple, \<^verbatim>\<open>Thead.create\<close> with no
  explicit children returns a header component whose only child is the row that
  \<^verbatim>\<open>Tr.create\<close> builds with \<^verbatim>\<open>cell_type="header"\<close>, and that row holds one \<^verbatim>\<open>Th\<close>
  cell per header, in the order of the headers.
\<close>

theorem Thead_create_headers:
  "headers = PList hs \<or> headers = PTuple hs \<Longrightarrow>
     Tr_create [] ''header'' headers []
       = Inr (Component ''Tr'' (map (\<lambda>h. PComp (Component ''Th'' [h] [])) hs) [])
   \<and> Thead_create [] headers ps
       = Inr (Component ''Thead''
                [PComp (Component ''Tr'' (map (\<lambda>h. PComp (Component ''Th'' [h] [])) hs) [])] ps)"
  by (auto simp: Thead_create_def validate_headers_iff Tr_create_seq create_defs)

theorem Thead_create_headers_witness:
  "Thead_create [] (PList [PStr ''a'', PStr ''b'']) []
       = Inr (Component ''Thead''
                [PComp (Component ''Tr'' [PComp (Component ''Th'' [PStr ''a''] []),
                                          PComp (Component ''Th'' [PStr ''b''] [])] [])] [])
   \<and> Thead_create [] (PTuple [PInt 7]) []
       = Inr (Component ''Thead''
                [PComp (Component ''Tr'' [PComp (Component ''Th'' [PInt 7] [])] [])] [])"
  using Thead_create_headers [of "PList [PStr ''a'', PStr ''b'']" "[PStr ''a'', PStr ''b'']" "[]"]
        Thead_create_headers [of "PTuple [PInt 7]" "[PInt 7]" "[]"]
  by simp

text \<open>
  C6. A headers value (and likewise a footers value) that is not list/tuple-like, that is
  neither a plain list or tuple nor a reactive value whose declared type is a list or tuple
  type, makes the validation, and with it \<^verbatim>\<open>Thead.create\<close> (\<^verbatim>\<open>Tfoot.create\<close>) called
  with no explicit children, raise a \<^verbatim>\<open>TypeError\<close>; for a list/tuple-like value neither
  raises.
\<close>

theorem headers_footers_validation:
  "(\<not> list_tuple_like v \<longrightarrow>
      validate_headers v = Inl (TypeError (Msg ''table headers should be a list or tuple''))
    \<and> Thead_create [] v ps = Inl (TypeError (Msg ''table headers should be a list or tuple''))
    \<and> validate_footers v = Inl (TypeError (Msg ''table headers should be a list or tuple''))
    \<and> Tfoot_create [] v ps = Inl (TypeError (Msg ''table headers should be a list or tuple'')))
   \<and> (list_tuple_like v \<longrightarrow>
      validate_headers v = Inr () \<and> (\<exists>c. Thead_create [] v ps = Inr c)
    \<and> validate_footers v = Inr () \<and> (\<exists>c. Tfoot_create [] v ps = Inr c))"
  by (simp add: Thead_create_def Tfoot_create_def validate_headers_iff validate_footers_iff
        Tr_create_header_row)

theorem headers_footers_validation_witness:
  "\<not> list_tuple_like (PStr ''ab'')
   \<and> Thead_create [] (PStr ''ab'') []
       = Inl (TypeError (Msg ''table headers should be a list or tuple''))
   \<and> Tfoot_create [] (PStr ''ab'') []
       = Inl (TypeError (Msg ''table headers should be a list or tuple''))
   \<and> \<not> list_tuple_like (PVar (TClass Cls_str) ''s'')
   \<and> Thead_create [] (PVar (TClass Cls_str) ''s'') []
       = Inl (TypeError (Msg ''table headers should be a list or tuple''))
   \<and> list_tuple_like (PVar (TAlias Cls_list [TClass Cls_str]) ''s'')
   \<and> (\<exists>c. Thead_create [] (PVar (TAlias Cls_list [TClass Cls_str]) ''s'') [] = Inr c)
   \<and> list_tuple_like (PTuple [PInt 1])
   \<and> (\<exists>c. Tfoot_create [] (PTuple [PInt 1]) [] = Inr c)"
  using headers_footers_validation [of "PStr ''ab''" "[]"]
        headers_footers_validation [of "PVar (TClass Cls_str) ''s''" "[]"]
        headers_footers_validation [of "PVar (TAlias Cls_list [TClass Cls_str]) ''s''" "[]"]
        headers_footers_validation [of "PTuple [PInt 1]" "[]"]
  by simp

text \<open>
  C9. For every list/tuple-like footers value, \<^verbatim>\<open>Tfoot.create\<close> with no explicit children
  builds its single row with \<^verbatim>\<open>cell_type="header"\<close>: the footer cells are \<^verbatim>\<open>Th\<close> nodes,
  not \<^verbatim>\<open>Td\<close> nodes. When the footers fail the validation, the message of the
  \<^verbatim>\<open>TypeError\<close> speaks of table headers.
\<close>

theorem Tfoot_create_header_cells:
  "(list_tuple_like footers \<longrightarrow>
      Tr_create [] ''header'' footers [] = Inr (header_row footers)
    \<and> Tfoot_create [] footers ps = Inr (Component ''Tfoot'' [PComp (header_row footers)] ps))
   \<and> (\<not> list_tuple_like footers \<longrightarrow>
      Tfoot_create [] footers ps
        = Inl (TypeError (Msg ''table headers should be a list or tuple'')))"
  by (simp add: Tfoot_create_def validate_footers_iff Tr_create_header_row create_defs)

theorem Tfoot_create_header_cells_witness:
  "list_tuple_like (PList [PStr ''total'', PInt 3])
   \<and> Tfoot_create [] (PList [PStr ''total'', PInt 3]) []
       = Inr (Component ''Tfoot''
                [PComp (Component ''Tr'' [PComp (Component ''Th'' [PStr ''total''] []),
                                          PComp (Component ''Th'' [PInt 3] [])] [])] [])
   \<and> \<not> list_tuple_like (PInt 3)
   \<and> Tfoot_create [] (PInt 3) []
       = Inl (TypeError (Msg ''table headers should be a list or tuple''))"
  using Tfoot_create_header_cells [of "PList [PStr ''total'', PInt 3]" "[]"]
        Tfoot_create_header_cells [of "PInt 3" "[]"]
  by simp

section \<open>The body section\<close>




text \<open>
  C5. Whether the rows (or cells) are a reactive value decides static against dynamic
  construction only. For every rows value that \<^verbatim>\<open>validate_rows\<close> accepts,
  \<^verbatim>\<open>Tbody.create\<close> with no explicit children
  \<^item> emits, for a reactive value, exactly one \<^verbatim>\<open>Foreach\<close> child, whose render function maps
    an element to a data row;
  \<^item> otherwise applies that same render function to the elements in order: the call returns
    exactly when every element's row can be built, with one child per element, and an
    element whose row cannot be built passes its error on.

  For valid rows, a list or tuple of lists or tuples, every row can be built and the body
  has one data row per element. \<^verbatim>\<open>Tr.create\<close> does the same with its cells and the
  \<^verbatim>\<open>create\<close> of the cell class: one \<^verbatim>\<open>Foreach\<close> child for a reactive value, one cell per
  element for a list or tuple.
\<close>

theorem static_or_dynamic_children:
  "(validate_rows rows = Inr () \<and> is_Var rows \<longrightarrow>
      Tbody_create [] rows ps
        = Inr (Component ''Tbody'' [PComp (Foreach rows Tr_data_row)] ps))
   \<and> (validate_rows rows = Inr () \<and> \<not> is_Var rows \<longrightarrow>
      Tbody_create [] rows ps
        = (case comprehension (apply_render_fn Tr_data_row) (items rows) of
             Inl e \<Rightarrow> Inl e
           | Inr trs \<Rightarrow> Inr (Component ''Tbody'' (map PComp trs) ps))
      \<and> (Tbody_create [] rows ps = Inr c \<longleftrightarrow>
           (\<exists>trs. list_all2 (\<lambda>r tr. apply_render_fn Tr_data_row r = Inr tr) (items rows) trs
                  \<and> c = Component ''Tbody'' (map PComp trs) ps)))
   \<and> (valid_rows rows \<longrightarrow>
      validate_rows rows = Inr ()
      \<and> (\<not> is_Var rows \<longrightarrow>
           Tbody_create [] rows ps
             = Inr (Component ''Tbody'' (map (\<lambda>r. PComp (data_row r)) (items rows)) ps)))
   \<and> (cell_types ct = Some cls \<and> is_Var cells \<longrightarrow>
      Tr_create [] ct cells ps
        = Inr (Component ''Tr'' [PComp (Foreach cells (Cell_create cls))] ps))
   \<and> (cell_types ct = Some cls \<and> seq_like cells \<longrightarrow>
      (\<exists>ks. list_all2 (\<lambda>c k. apply_render_fn (Cell_create cls) c = Inr k) (items cells) ks
         \<and> Tr_create [] ct cells ps = Inr (Component ''Tr'' (map PComp ks) ps)))"
proof (intro conjI impI)
  assume a: "validate_rows rows = Inr () \<and> is_Var rows"
  then obtain t n where "rows = PVar t n" by (auto simp: is_Var_iff)
  with a show "Tbody_create [] rows ps
        = Inr (Component ''Tbody'' [PComp (Foreach rows Tr_data_row)] ps)"
    by (simp add: Tbody_create_Var)
next
  assume a: "validate_rows rows = Inr () \<and> \<not> is_Var rows"
  then show eq: "Tbody_create [] rows ps
        = (case comprehension (apply_render_fn Tr_data_row) (items rows) of
             Inl e \<Rightarrow> Inl e
           | Inr trs \<Rightarrow> Inr (Component ''Tbody'' (map PComp trs) ps))"
    by (simp add: Tbody_create_accepted_static)
  show "Tbody_create [] rows ps = Inr c \<longleftrightarrow>
           (\<exists>trs. list_all2 (\<lambda>r tr. apply_render_fn Tr_data_row r = Inr tr) (items rows) trs
                  \<and> c = Component ''Tbody'' (map PComp trs) ps)"
    unfolding eq comprehension_iff [of "apply_render_fn Tr_data_row", symmetric]
    by (cases "comprehension (apply_render_fn Tr_data_row) (items rows)") auto
next
  assume "valid_rows rows"
  then show "validate_rows rows = Inr ()" by (rule valid_rows_accepted)
next
  assume v: "valid_rows rows" and nv: "\<not> is_Var rows"
  have "comprehension (apply_render_fn Tr_data_row) (items rows)
          = Inr (map data_row (items rows))"
    unfolding apply_render_fn_Tr_data_row
    using valid_rows_static_items [OF v nv] by (rule comprehension_data_rows)
  then show "Tbody_create [] rows ps
             = Inr (Component ''Tbody'' (map (\<lambda>r. PComp (data_row r)) (items rows)) ps)"
    using Tbody_create_accepted_static [OF valid_rows_accepted [OF v] nv, of ps]
    by (simp add: comp_def)
next
  assume a: "cell_types ct = Some cls \<and> is_Var cells"
  then obtain t n where "cells = PVar t n" by (auto simp: is_Var_iff)
  with a show "Tr_create [] ct cells ps
        = Inr (Component ''Tr'' [PComp (Foreach cells (Cell_create cls))] ps)"
    by (simp add: Tr_create_Var)
next
  assume a: "cell_types ct = Some cls \<and> seq_like cells"
  let ?ks = "map (\<lambda>c. Component cls [c] []) (items cells)"
  have "list_all2 (\<lambda>c k. apply_render_fn (Cell_create cls) c = Inr k) (items cells) ?ks"
    by (simp add: list_all2_conv_all_nth create_defs)
  moreover have "Tr_create [] ct cells ps = Inr (Component ''Tr'' (map PComp ?ks) ps)"
    using a Tr_create_seq [of ct cls cells ps] by (auto simp: comp_def)
  ultimately show
    "\<exists>ks. list_all2 (\<lambda>c k. apply_render_fn (Cell_create cls) c = Inr k) (items cells) ks
         \<and> Tr_create [] ct cells ps = Inr (Component ''Tr'' (map PComp ks) ps)"
    by blast
qed

theorem static_or_dynamic_children_witness:
  "validate_rows (PVar (TAlias Cls_list [TAlias Cls_list [TClass Cls_int]]) ''rows'') = Inr ()
   \<and> is_Var (PVar (TAlias Cls_list [TAlias Cls_list [TClass Cls_int]]) ''rows'')
   \<and> Tbody_create [] (PVar (TAlias Cls_list [TAlias Cls_list [TClass Cls_int]]) ''rows'') []
       = Inr (Component ''Tbody''
                [PComp (Foreach (PVar (TAlias Cls_list [TAlias Cls_list [TClass Cls_int]]) ''rows'')
                          Tr_data_row)] [])
   \<and> valid_rows (PList [PList [PInt 1, PInt 2], PTuple [PInt 3]])
   \<and> Tbody_create [] (PList [PList [PInt 1, PInt 2], PTuple [PInt 3]]) []
       = Inr (Component ''Tbody''
                [PComp (Component ''Tr'' [PComp (Component ''Td'' [PInt 1] []),
                                          PComp (Component ''Td'' [PInt 2] [])] []),
                 PComp (Component ''Tr'' [PComp (Component ''Td'' [PInt 3] [])] [])] [])
   \<and> validate_rows (PList [PList [PInt 1], PNone]) = Inr ()
   \<and> \<not> is_Var (PList [PList [PInt 1], PNone])
   \<and> Tbody_create [] (PList [PList [PInt 1], PNone]) []
       = Inr (Component ''Tbody''
                [PComp (Component ''Tr'' [PComp (Component ''Td'' [PInt 1] [])] []),
                 PComp (Component ''Tr'' [] [])] [])
   \<and> validate_rows (PList [PList [PInt 1], PInt 5]) = Inr ()
   \<and> \<not> is_Var (PList [PList [PInt 1], PInt 5])
   \<and> Tbody_create [] (PList [PList [PInt 1], PInt 5]) []
       = Inl (TypeError (Not_iterable Cls_int))
   \<and> cell_types ''header'' = Some ''Th''
   \<and> Tr_create [] ''header'' (PVar (TAlias Cls_list [TClass Cls_str]) ''names'') []
       = Inr (Component ''Tr''
                [PComp (Foreach (PVar (TAlias Cls_list [TClass Cls_str]) ''names'')
                          (Cell_create ''Th''))] [])
   \<and> seq_like (PTuple [PStr ''a'', PStr ''b''])
   \<and> (\<exists>ks. list_all2 (\<lambda>c k. apply_render_fn (Cell_create ''Th'') c = Inr k)
               [PStr ''a'', PStr ''b''] ks
         \<and> Tr_create [] ''header'' (PTuple [PStr ''a'', PStr ''b'']) []
             = Inr (Component ''Tr'' (map PComp ks) []))"
proof -
  have v1: "validate_rows (PVar (TAlias Cls_list [TAlias Cls_list [TClass Cls_int]]) ''rows'')
              = Inr ()"
    and v2: "validate_rows (PList [PList [PInt 1], PNone]) = Inr ()"
    and v3: "validate_rows (PList [PList [PInt 1], PInt 5]) = Inr ()"
    by (simp_all add: validate_rows_def)
  have r5: "Tr_create [] ''data'' (PInt 5) [] = Inl (TypeError (Not_iterable Cls_int))"
    and r0: "Tr_create [] ''data'' PNone [] = Inr (Component ''Tr'' [] [])"
    and r1: "Tr_create [] ''data'' (PList [PInt 1]) []
               = Inr (Component ''Tr'' [PComp (Component ''Td'' [PInt 1] [])] [])"
    by (simp_all add: Tr_create_def py_or_def create_defs)
  show ?thesis
    using v1 v2 v3
      static_or_dynamic_children
        [where rows = "PVar (TAlias Cls_list [TAlias Cls_list [TClass Cls_int]]) ''rows''"
           and ps = "[]" and ct = "''header''" and cls = "''Th''"
           and cells = "PVar (TAlias Cls_list [TClass Cls_str]) ''names''"]
      static_or_dynamic_children
        [where rows = "PList [PList [PInt 1, PInt 2], PTuple [PInt 3]]"
           and ps = "[]" and ct = "''header''" and cls = "''Th''"
           and cells = "PTuple [PStr ''a'', PStr ''b'']"]
      static_or_dynamic_children
        [where rows = "PList [PList [PInt 1], PNone]" and ps = "[]"]
      static_or_dynamic_children
        [where rows = "PList [PList [PInt 1], PInt 5]" and ps = "[]"]
    by (simp add: data_row_def r5 r0 r1)
qed

section \<open>The table\<close>

text \<open>
  C7. With no explicit children, \<^verbatim>\<open>Table.create\<close> returns exactly when the section of
  every argument that is not \<^verbatim>\<open>None\<close> can be built, and its children are then, in this
  order, the caption node, the header section, the body section and the footer section,
  each one present if and only if its argument is not \<^verbatim>\<open>None\<close>.
\<close>

theorem Table_create_children_order:
  "Table_create [] caption headers rows footers ps = Inr t \<longleftrightarrow>
     (\<exists>thead tbody tfoot.
        (headers \<noteq> PNone \<longrightarrow> Thead_create [] headers [] = Inr thead)
      \<and> (rows \<noteq> PNone \<longrightarrow> Tbody_create [] rows [] = Inr tbody)
      \<and> (footers \<noteq> PNone \<longrightarrow> Tfoot_create [] footers [] = Inr tfoot)
      \<and> t = Component ''Table''
              ((if caption \<noteq> PNone then [PComp (Component ''TableCaption'' [caption] [])] else [])
               @ (if headers \<noteq> PNone then [PComp thead] else [])
               @ (if rows \<noteq> PNone then [PComp tbody] else [])
               @ (if footers \<noteq> PNone then [PComp tfoot] else [])) ps)"
  unfolding Table_create_sections optional_alt by (rule refl)

theorem Table_create_children_order_witness:
  "Table_create [] (PStr ''cap'') PNone (PList [PList [PInt 1]]) (PList [PStr ''f''])
       [(''size'', PStr ''sm'')]
     = Inr (Component ''Table''
              [PComp (Component ''TableCaption'' [PStr ''cap''] []),
               PComp (Component ''Tbody''
                 [PComp (Component ''Tr'' [PComp (Component ''Td'' [PInt 1] [])] [])] []),
               PComp (Component ''Tfoot''
                 [PComp (Component ''Tr'' [PComp (Component ''Th'' [PStr ''f''] [])] [])] [])]
              [(''size'', PStr ''sm'')])"
proof -
  have b: "Tbody_create [] (PList [PList [PInt 1]]) []
      = Inr (Component ''Tbody''
               [PComp (Component ''Tr'' [PComp (Component ''Td'' [PInt 1] [])] [])] [])"
    using Tbody_create_static [of "PList [PList [PInt 1]]" "[PList [PInt 1]]" "[]"]
    by (simp add: data_row_def)
  have f: "Tfoot_create [] (PList [PStr ''f'']) []
      = Inr (Component ''Tfoot''
               [PComp (Component ''Tr'' [PComp (Component ''Th'' [PStr ''f''] [])] [])] [])"
    by (simp add: Tfoot_create_def validate_footers_iff Tr_create_seq create_defs)
  show ?thesis
    by (rule iffD2 [OF Table_create_children_order]) (simp add: b f)
qed



end
